theory Spec2Isabelle
  imports Complex_Main
begin

section \<open>Outcomes of running the C++ code\<close>

text \<open>
  The library is header-only C++ (namespace DIFF). A call either returns a value, or
  runs into undefined behaviour of the language or the standard library (an iterator
  moved past \<open>end()\<close>, an invalid range handed to \<open>std::list::erase\<close>, a read
  outside a buffer), or loops forever. The first two are the constructors of
  \<open>outcome\<close>; a loop that may run forever is a \<open>partial_function\<close> into
  \<open>option\<close>, whose value \<open>None\<close> is "does not return".
\<close>

datatype 'a outcome = Done 'a | UndefinedBehaviour

section \<open>operation.h\<close>

datatype Operation = INSERT | DELETE | EQUAL

section \<open>buffer.h\<close>

text \<open>
  A \<open>Buffer\<close> is a pointer, a size and an ownership flag. The model keeps the bytes
  the buffer denotes, a list of \<open>char\<close> (8 bits each); whether the bytes are borrowed
  or owned (\<open>_allocated\<close>) does not change any value computed below and is left out.
  Sizes and indices are \<open>size_t\<close>; they are natural numbers here, and every
  subtraction of the source is written with the guard the source puts in front of it.
  (The size of an object is below \<open>2^63\<close>, so that a sum of two sizes of buffers, or the
  double of one, does not wrap around; arithmetic on other \<open>size_t\<close> values, such as the
  members of \<open>CommonHalf\<close>, is written modulo \<open>2^64\<close>.)
\<close>

type_synonym Buffer = "char list"

definition Buffer_bytes :: "Buffer \<Rightarrow> nat" where
  "Buffer_bytes b = length b"

text \<open>
  \<open>Buffer(_data + off, n, _)\<close>: a buffer of \<open>n\<close> bytes that start \<open>off\<close> bytes into the
  storage of \<open>b\<close>. The constructor takes whatever pointer and size it is given; the
  bytes are there to be read (or copied, for an owned buffer) only while the range stays
  inside the storage. A range that leaves it is undefined behaviour.
\<close>

definition Buffer_at :: "Buffer \<Rightarrow> nat \<Rightarrow> nat \<Rightarrow> Buffer outcome" where
  "Buffer_at b off n =
     (if off + n \<le> Buffer_bytes b then Done (take n (drop off b))
      else UndefinedBehaviour)"

text \<open>
  \<open>Buffer::part(start)\<close> and \<open>Buffer::part(start, size)\<close>; \<open>Buffer()\<close> is the empty
  buffer.
\<close>

definition Buffer_part :: "Buffer \<Rightarrow> nat \<Rightarrow> Buffer outcome" where
  "Buffer_part b start =
     (if start \<ge> Buffer_bytes b then Done []
      else Buffer_at b start (Buffer_bytes b - start))"

definition Buffer_part2 :: "Buffer \<Rightarrow> nat \<Rightarrow> nat \<Rightarrow> Buffer outcome" where
  "Buffer_part2 b start sz =
     (if start \<ge> Buffer_bytes b \<or> sz = 0 then Done []
      else Buffer_at b start (min (Buffer_bytes b - start) sz))"

text \<open>
  Both return for every argument, with these bytes. Their callers below are therefore
  modelled with the buffer that is returned (\<open>Buffer_returned\<close>).
\<close>

lemma Buffer_part_eq:
  "Buffer_part b start = Done (if start \<ge> length b then [] else drop start b)"
  by (simp add: Buffer_part_def Buffer_at_def Buffer_bytes_def)

lemma Buffer_part2_eq:
  "Buffer_part2 b start sz =
     Done (if start \<ge> length b \<or> sz = 0 then []
           else take (min (length b - start) sz) (drop start b))"
  by (auto simp add: Buffer_part2_def Buffer_at_def Buffer_bytes_def min_def)

definition Buffer_returned :: "Buffer outcome \<Rightarrow> Buffer" where
  "Buffer_returned r = (case r of Done part \<Rightarrow> part | UndefinedBehaviour \<Rightarrow> [])"

text \<open>\<open>append\<close>, \<open>prepend\<close>, \<open>shrink\<close> (from the end), \<open>skip\<close> (from the front), \<open>clear\<close>.\<close>

definition Buffer_append :: "Buffer \<Rightarrow> Buffer \<Rightarrow> Buffer" where
  "Buffer_append b that = b @ that"

definition Buffer_prepend :: "Buffer \<Rightarrow> Buffer \<Rightarrow> Buffer" where
  "Buffer_prepend b that = that @ b"

definition Buffer_clear :: "Buffer \<Rightarrow> Buffer" where
  "Buffer_clear b = []"

definition Buffer_shrink :: "Buffer \<Rightarrow> nat \<Rightarrow> Buffer" where
  "Buffer_shrink b sz =
     (if sz \<ge> Buffer_bytes b then Buffer_clear b
      else if sz = 0 then b
      else take (Buffer_bytes b - sz) b)"

definition Buffer_skip :: "Buffer \<Rightarrow> nat \<Rightarrow> Buffer" where
  "Buffer_skip b sz =
     (if sz \<ge> Buffer_bytes b then Buffer_clear b
      else if sz = 0 then b
      else drop sz b)"

text \<open>
  \<open>memcmp(p, q, n)\<close> on the first \<open>n\<close> bytes of two byte sequences that both have at
  least \<open>n\<close> bytes: zero when they agree, otherwise the sign of the first difference,
  the bytes read as unsigned. (C fixes the sign of the result only; the model returns
  \<open>-1\<close> or \<open>1\<close>.)
\<close>

fun memcmp :: "char list \<Rightarrow> char list \<Rightarrow> nat \<Rightarrow> int" where
  "memcmp (x # xs) (y # ys) (Suc n) =
     (if x = y then memcmp xs ys n
      else if (of_char x :: nat) < of_char y then - 1 else 1)"
| "memcmp xs ys n = 0"

text \<open>The conversion of a \<open>size_t\<close> or \<open>ssize_t\<close> value to \<open>int\<close> (32 bits, two's complement).\<close>

definition to_int32 :: "int \<Rightarrow> int" where
  "to_int32 v = (v + 2147483648) mod 4294967296 - 2147483648"

text \<open>The conversion of an \<open>int\<close> or \<open>ssize_t\<close> value to \<open>size_t\<close> (64 bits).\<close>

definition to_size_t :: "int \<Rightarrow> nat" where
  "to_size_t v = nat (v mod 18446744073709551616)"

text \<open>
  \<open>Buffer::compare(start, size, that)\<close>. The source computes \<open>_size - start\<close>
  unguarded; its one caller (\<open>Patch::shift\<close>) passes \<open>start \<le> _size\<close>, and a larger
  \<open>start\<close> makes \<open>memcmp\<close> read outside the buffer.
\<close>

definition Buffer_compare3 :: "Buffer \<Rightarrow> nat \<Rightarrow> nat \<Rightarrow> Buffer \<Rightarrow> int outcome" where
  "Buffer_compare3 b start sz that =
     (let sz' = (if sz > Buffer_bytes that then Buffer_bytes that else sz)
      in if start \<le> Buffer_bytes b
         then Done (memcmp (drop start b) that (min sz' (Buffer_bytes b - start)))
         else UndefinedBehaviour)"

text \<open>
  \<open>Buffer::compare(that)\<close>: the difference of the sizes is a \<open>size_t\<close> returned as
  \<open>int\<close>.
\<close>

definition Buffer_compare :: "Buffer \<Rightarrow> Buffer \<Rightarrow> int" where
  "Buffer_compare b that =
     (let result = memcmp b that (min (Buffer_bytes b) (Buffer_bytes that))
      in if result \<noteq> 0 \<or> Buffer_bytes b = Buffer_bytes that then result
         else to_int32 (int (Buffer_bytes b) - int (Buffer_bytes that)))"

text \<open>
  \<open>memmem(haystack, haystacklen, needle, needlelen)\<close>: the offset of the first
  occurrence of the needle, \<open>None\<close> for the null pointer. An empty needle is found at
  offset 0. The haystack is a buffer with storage here; a buffer without storage (the
  null pointer of a default-constructed \<open>Buffer\<close>) is the subject of
  \<open>Buffer_find2_null\<close> below. \<open>Patch\<close> searches texts that have bytes only.
\<close>

fun memmem :: "char list \<Rightarrow> char list \<Rightarrow> nat option" where
  "memmem [] needle = (if needle = [] then Some 0 else None)"
| "memmem (h # hs) needle =
     (if take (length needle) (h # hs) = needle then Some 0
      else map_option Suc (memmem hs needle))"

text \<open>
  \<open>Buffer::find(that)\<close> and \<open>Buffer::find(that, pos)\<close>, returning \<open>ssize_t\<close>. The
  second one searches \<open>_size - pos\<close> bytes from \<open>_data + pos\<close>: for \<open>pos > _size\<close>
  the length wraps around and \<open>memmem\<close> reads outside the buffer.
\<close>

definition Buffer_find :: "Buffer \<Rightarrow> Buffer \<Rightarrow> int" where
  "Buffer_find b that = (case memmem b that of None \<Rightarrow> - 1 | Some off \<Rightarrow> int off)"

definition Buffer_find2 :: "Buffer \<Rightarrow> Buffer \<Rightarrow> nat \<Rightarrow> int outcome" where
  "Buffer_find2 b that pos =
     (if pos \<le> Buffer_bytes b
      then (case memmem (drop pos b) that of
              None \<Rightarrow> Done (- 1)
            | Some off \<Rightarrow> Done (int (pos + off)))
      else UndefinedBehaviour)"

text \<open>
  \<open>Buffer::find(that, pos)\<close> on a buffer whose \<open>_data\<close> is the null pointer, as in a
  default-constructed \<open>Buffer\<close>; its size is 0. At \<open>pos = 0\<close> the haystack handed to
  \<open>memmem\<close> is the null pointer with length 0, and what \<open>memmem\<close> returns is null
  whatever the needle is (for an empty needle it is the haystack itself, as the C
  library of Linux does): \<open>find\<close> returns \<open>-1\<close>. For another \<open>pos\<close> the length wraps
  around, as above.
\<close>

definition Buffer_find2_null :: "Buffer \<Rightarrow> nat \<Rightarrow> int outcome" where
  "Buffer_find2_null that pos = (if pos = 0 then Done (- 1) else UndefinedBehaviour)"

text \<open>A \<open>size_t\<close> sum or product, and an unguarded subtraction, wrap around modulo \<open>2^64\<close>.\<close>

definition size_t_wrap :: "nat \<Rightarrow> nat" where
  "size_t_wrap n = n mod 18446744073709551616"

definition size_t_minus :: "nat \<Rightarrow> nat \<Rightarrow> nat" where
  "size_t_minus a b = to_size_t (int a - int b)"

section \<open>diff.h\<close>

text \<open>A \<open>Diff\<close> is a \<open>Buffer\<close> (its base class) with an operation.\<close>

datatype Diff = Diff (Diff_operation: Operation) (Diff_buffer: Buffer)

definition Diff_bytes :: "Diff \<Rightarrow> nat" where
  "Diff_bytes d = Buffer_bytes (Diff_buffer d)"

section \<open>ascii.h\<close>

text \<open>
  \<open>Ascii\<close> wraps one \<open>Buffer\<close>; a character is a byte. Its iterators walk the bytes
  forwards (\<open>begin()\<close>) and backwards (\<open>rbegin()\<close>).
\<close>

type_synonym Ascii = Buffer

definition Ascii_buffer :: "Ascii \<Rightarrow> Buffer" where
  "Ascii_buffer a = a"

definition Ascii_buffer1 :: "Ascii \<Rightarrow> nat \<Rightarrow> Buffer" where
  "Ascii_buffer1 a start = Buffer_returned (Buffer_part a start)"

definition Ascii_buffer2 :: "Ascii \<Rightarrow> nat \<Rightarrow> nat \<Rightarrow> Buffer" where
  "Ascii_buffer2 a start sz = Buffer_returned (Buffer_part2 a start sz)"

definition Ascii_bytes :: "Ascii \<Rightarrow> nat" where
  "Ascii_bytes a = Buffer_bytes a"

definition Ascii_characters :: "Ascii \<Rightarrow> nat" where
  "Ascii_characters a = Buffer_bytes a"

definition Ascii_find :: "Ascii \<Rightarrow> Ascii \<Rightarrow> int" where
  "Ascii_find a that = Buffer_find a that"

definition Ascii_find2 :: "Ascii \<Rightarrow> Ascii \<Rightarrow> nat \<Rightarrow> int outcome" where
  "Ascii_find2 a that index = Buffer_find2 a that index"

text \<open>
  The same call on a text that may be a default-constructed \<open>Ascii\<close>, whose buffer has
  the null pointer as \<open>_data\<close>: \<open>null\<close> says whether it is (the text has no bytes then).
\<close>

definition Ascii_find2_ptr :: "bool \<Rightarrow> Ascii \<Rightarrow> Ascii \<Rightarrow> nat \<Rightarrow> int outcome" where
  "Ascii_find2_ptr null a that index =
     (if null then Buffer_find2_null that index else Ascii_find2 a that index)"

definition Ascii_compare :: "Ascii \<Rightarrow> Ascii \<Rightarrow> int" where
  "Ascii_compare a that = Buffer_compare a that"

definition Ascii_eq :: "Ascii \<Rightarrow> Ascii \<Rightarrow> bool" where
  "Ascii_eq a that = (Ascii_compare a that = 0)"

definition Ascii_substr2 :: "Ascii \<Rightarrow> nat \<Rightarrow> nat \<Rightarrow> Ascii" where
  "Ascii_substr2 a start sz = Buffer_returned (Buffer_part2 a start sz)"

definition Ascii_substr :: "Ascii \<Rightarrow> nat \<Rightarrow> Ascii" where
  "Ascii_substr a start = Buffer_returned (Buffer_part a start)"

definition Ascii_begin :: "Ascii \<Rightarrow> char list" where
  "Ascii_begin a = a"

definition Ascii_rbegin :: "Ascii \<Rightarrow> char list" where
  "Ascii_rbegin a = rev a"

section \<open>commonprefix.h, commonsuffix.h\<close>

text \<open>
  Both classes keep a reference to their first input and the number of common
  characters. The constructor's loop compares under the two iterators while
  \<open>_size < maxsize\<close>; the iterators are the characters still ahead. (\<open>maxsize\<close> is the
  smaller length, so neither iterator runs out while the loop condition holds: the
  second equation is the loop's exit.) The reference \<open>_input\<close> is modelled by the value
  of the text it was bound to; the lifetime of that object is not modelled (the
  constructors are also called on temporaries, which the reference outlives).
\<close>

record CommonPrefix =
  CommonPrefix_input :: Ascii
  CommonPrefix_size :: nat

fun CommonPrefix_loop :: "nat \<Rightarrow> nat \<Rightarrow> char list \<Rightarrow> char list \<Rightarrow> nat" where
  "CommonPrefix_loop sz maxsize (c1 # iter1) (c2 # iter2) =
     (if sz < maxsize
      then (if c1 \<noteq> c2 then sz else CommonPrefix_loop (sz + 1) maxsize iter1 iter2)
      else sz)"
| "CommonPrefix_loop sz maxsize iter1 iter2 = sz"

definition CommonPrefix_ctor :: "Ascii \<Rightarrow> Ascii \<Rightarrow> CommonPrefix" where
  "CommonPrefix_ctor input1 input2 =
     (let maxsize = min (Ascii_characters input1) (Ascii_characters input2)
      in \<lparr> CommonPrefix_input = input1,
           CommonPrefix_size = CommonPrefix_loop 0 maxsize (Ascii_begin input1) (Ascii_begin input2) \<rparr>)"

text \<open>The constructor from two \<open>Diff\<close>s wraps their bytes as texts.\<close>

definition CommonPrefix_ctor_Diff :: "Diff \<Rightarrow> Diff \<Rightarrow> CommonPrefix" where
  "CommonPrefix_ctor_Diff input1 input2 = CommonPrefix_ctor (Diff_buffer input1) (Diff_buffer input2)"

definition CommonPrefix_buffer :: "CommonPrefix \<Rightarrow> Buffer" where
  "CommonPrefix_buffer p = Ascii_buffer2 (CommonPrefix_input p) 0 (CommonPrefix_size p)"

definition CommonPrefix_characters :: "CommonPrefix \<Rightarrow> nat" where
  "CommonPrefix_characters p = CommonPrefix_size p"

definition CommonPrefix_bytes :: "CommonPrefix \<Rightarrow> nat" where
  "CommonPrefix_bytes p = Buffer_bytes (CommonPrefix_buffer p)"

definition CommonPrefix_bool :: "CommonPrefix \<Rightarrow> bool" where
  "CommonPrefix_bool p = (CommonPrefix_size p > 0)"

record CommonSuffix =
  CommonSuffix_input :: Ascii
  CommonSuffix_size :: nat

fun CommonSuffix_loop :: "nat \<Rightarrow> nat \<Rightarrow> char list \<Rightarrow> char list \<Rightarrow> nat" where
  "CommonSuffix_loop sz maxsize (c1 # iter1) (c2 # iter2) =
     (if sz < maxsize
      then (if c1 \<noteq> c2 then sz else CommonSuffix_loop (sz + 1) maxsize iter1 iter2)
      else sz)"
| "CommonSuffix_loop sz maxsize iter1 iter2 = sz"

definition CommonSuffix_ctor :: "Ascii \<Rightarrow> Ascii \<Rightarrow> CommonSuffix" where
  "CommonSuffix_ctor input1 input2 =
     (let maxsize = min (Ascii_characters input1) (Ascii_characters input2)
      in \<lparr> CommonSuffix_input = input1,
           CommonSuffix_size = CommonSuffix_loop 0 maxsize (Ascii_rbegin input1) (Ascii_rbegin input2) \<rparr>)"

definition CommonSuffix_ctor_Diff :: "Diff \<Rightarrow> Diff \<Rightarrow> CommonSuffix" where
  "CommonSuffix_ctor_Diff input1 input2 = CommonSuffix_ctor (Diff_buffer input1) (Diff_buffer input2)"

definition CommonSuffix_buffer :: "CommonSuffix \<Rightarrow> Buffer" where
  "CommonSuffix_buffer s =
     Ascii_buffer2 (CommonSuffix_input s)
       (size_t_minus (Ascii_characters (CommonSuffix_input s)) (CommonSuffix_size s))
       (CommonSuffix_size s)"

definition CommonSuffix_characters :: "CommonSuffix \<Rightarrow> nat" where
  "CommonSuffix_characters s = CommonSuffix_size s"

definition CommonSuffix_bytes :: "CommonSuffix \<Rightarrow> nat" where
  "CommonSuffix_bytes s = Buffer_bytes (CommonSuffix_buffer s)"

definition CommonSuffix_bool :: "CommonSuffix \<Rightarrow> bool" where
  "CommonSuffix_bool s = (CommonSuffix_size s > 0)"

section \<open>commonoverlap.h\<close>

text \<open>
  The constructor binds \<open>_shorttext\<close> to \<open>text2\<close> when \<open>text1\<close> has more characters
  and to \<open>text1\<close> otherwise, and tells the two apart by address afterwards; the two
  arguments are distinct objects at the one call site (\<open>Patch::overlap\<close>). \<open>_skip\<close> is
  an \<open>ssize_t\<close>, converted to \<open>size_t\<close> where it is used as an index.
\<close>

record CommonOverlap =
  CommonOverlap_shorttext :: Ascii
  CommonOverlap_longtext :: Ascii
  CommonOverlap_skip :: int
  CommonOverlap_text1long :: bool

definition CommonOverlap_ctor :: "Ascii \<Rightarrow> Ascii \<Rightarrow> CommonOverlap" where
  "CommonOverlap_ctor text1 text2 =
     (let short_is_text1 = \<not> (Ascii_characters text1 > Ascii_characters text2);
          shorttext = (if short_is_text1 then text1 else text2);
          longtext = (if short_is_text1 then text2 else text1)
      in \<lparr> CommonOverlap_shorttext = shorttext,
           CommonOverlap_longtext = longtext,
           CommonOverlap_skip = Ascii_find longtext shorttext,
           CommonOverlap_text1long = (\<not> short_is_text1) \<rparr>)"

definition CommonOverlap_bool :: "CommonOverlap \<Rightarrow> bool" where
  "CommonOverlap_bool ov = (CommonOverlap_skip ov \<ge> 0)"

definition CommonOverlap_prefix :: "CommonOverlap \<Rightarrow> Buffer" where
  "CommonOverlap_prefix ov =
     Ascii_buffer2 (CommonOverlap_longtext ov) 0 (to_size_t (CommonOverlap_skip ov))"

definition CommonOverlap_suffix :: "CommonOverlap \<Rightarrow> Buffer" where
  "CommonOverlap_suffix ov =
     Ascii_buffer1 (CommonOverlap_longtext ov) (to_size_t (CommonOverlap_skip ov))"

definition CommonOverlap_buffer :: "CommonOverlap \<Rightarrow> Buffer" where
  "CommonOverlap_buffer ov = Ascii_buffer (CommonOverlap_shorttext ov)"

definition CommonOverlap_operation :: "CommonOverlap \<Rightarrow> Operation" where
  "CommonOverlap_operation ov = (if CommonOverlap_text1long ov then DELETE else INSERT)"

section \<open>commonhalf.h\<close>

text \<open>
  The members of \<open>CommonHalf\<close>: the two texts, the index \<open>_start\<close> in the long text,
  the position \<open>_substr\<close> in the short text, and the sizes \<open>_prefix\<close> and \<open>_suffix\<close>,
  which start at 0.
\<close>

record CommonHalf =
  CommonHalf_longtext :: Ascii
  CommonHalf_shorttext :: Ascii
  CommonHalf_start :: nat
  CommonHalf_substr :: nat
  CommonHalf_prefix :: nat
  CommonHalf_suffix :: nat

definition CommonHalf_characters :: "CommonHalf \<Rightarrow> nat" where
  "CommonHalf_characters h = size_t_wrap (CommonHalf_prefix h + CommonHalf_suffix h)"

definition CommonHalf_valid :: "CommonHalf \<Rightarrow> bool" where
  "CommonHalf_valid h =
     (size_t_wrap (CommonHalf_characters h * 2) \<ge> Ascii_characters (CommonHalf_longtext h))"

text \<open>
  The constructor's loop, \<open>while ((pos = shorttext.find(seed, pos + 1)) >= 0)\<close>, with
  \<open>pos\<close> an \<open>int\<close>: the \<open>ssize_t\<close> that \<open>find\<close> returns is narrowed to 32 bits, and
  \<open>pos + 1\<close> overflows at the largest \<open>int\<close>. The body compares the new prefix and
  suffix sizes with \<open>characters()\<close> and stores \<open>pos\<close> in \<open>_substr\<close>; it assigns
  neither \<open>_prefix\<close> nor \<open>_suffix\<close>. \<open>index\<close> is the constructor's parameter, which
  \<open>_start\<close> holds. \<open>short_null\<close> says whether the short text is a default-constructed
  one, whose \<open>_data\<close> is the null pointer: \<open>find\<close> tests the pointer that \<open>memmem\<close>
  returns.
\<close>

partial_function (option) CommonHalf_loop ::
  "bool \<Rightarrow> CommonHalf \<Rightarrow> Ascii \<Rightarrow> int \<Rightarrow> CommonHalf outcome option" where
  "CommonHalf_loop short_null self seed pos =
     (if pos = 2147483647 then Some UndefinedBehaviour
      else case Ascii_find2_ptr short_null (CommonHalf_shorttext self) seed
                  (to_size_t (pos + 1)) of
        UndefinedBehaviour \<Rightarrow> Some UndefinedBehaviour
      | Done found \<Rightarrow>
          (let pos' = to_int32 found in
           if pos' \<ge> 0 then
             (let prefix = CommonPrefix_ctor
                             (Ascii_substr (CommonHalf_longtext self) (CommonHalf_start self))
                             (Ascii_substr (CommonHalf_shorttext self) (to_size_t pos'));
                  suffix = CommonSuffix_ctor
                             (Ascii_substr2 (CommonHalf_longtext self) 0 (CommonHalf_start self))
                             (Ascii_substr2 (CommonHalf_shorttext self) 0 (to_size_t pos'))
              in if CommonHalf_characters self
                      > CommonPrefix_characters prefix + CommonSuffix_characters suffix
                 then CommonHalf_loop short_null self seed pos'
                 else CommonHalf_loop short_null
                        (self\<lparr> CommonHalf_substr := to_size_t pos' \<rparr>) seed pos')
           else Some (Done self)))"

declare CommonHalf_loop.simps [code]

text \<open>
  The constructor, \<open>CommonHalf_ctor_ptr\<close> with the state of the short text's pointer
  given, and \<open>CommonHalf_ctor\<close> for a short text with storage (any text that has bytes,
  and an empty one made from a string).
\<close>

definition CommonHalf_ctor_ptr ::
  "bool \<Rightarrow> Ascii \<Rightarrow> Ascii \<Rightarrow> nat \<Rightarrow> CommonHalf outcome option" where
  "CommonHalf_ctor_ptr short_null longtext shorttext index =
     (let self = \<lparr> CommonHalf_longtext = longtext, CommonHalf_shorttext = shorttext,
                   CommonHalf_start = index, CommonHalf_substr = 0,
                   CommonHalf_prefix = 0, CommonHalf_suffix = 0 \<rparr>;
          seed = Ascii_substr2 longtext index (Ascii_characters longtext div 4)
      in CommonHalf_loop short_null self seed (- 1))"

definition CommonHalf_ctor :: "Ascii \<Rightarrow> Ascii \<Rightarrow> nat \<Rightarrow> CommonHalf outcome option" where
  "CommonHalf_ctor longtext shorttext index = CommonHalf_ctor_ptr False longtext shorttext index"

definition CommonHalf_longPrefix :: "CommonHalf \<Rightarrow> Ascii" where
  "CommonHalf_longPrefix h =
     Ascii_substr2 (CommonHalf_longtext h) 0 (size_t_minus (CommonHalf_start h) (CommonHalf_suffix h))"

definition CommonHalf_longSuffix :: "CommonHalf \<Rightarrow> Ascii" where
  "CommonHalf_longSuffix h =
     Ascii_substr (CommonHalf_longtext h) (size_t_wrap (CommonHalf_start h + CommonHalf_prefix h))"

definition CommonHalf_shortPrefix :: "CommonHalf \<Rightarrow> Ascii" where
  "CommonHalf_shortPrefix h =
     Ascii_substr2 (CommonHalf_shorttext h) 0 (size_t_minus (CommonHalf_substr h) (CommonHalf_suffix h))"

definition CommonHalf_shortSuffix :: "CommonHalf \<Rightarrow> Ascii" where
  "CommonHalf_shortSuffix h =
     Ascii_substr (CommonHalf_shorttext h) (size_t_wrap (CommonHalf_substr h + CommonHalf_prefix h))"

definition CommonHalf_common :: "CommonHalf \<Rightarrow> Ascii" where
  "CommonHalf_common h =
     Ascii_substr2 (CommonHalf_shorttext h)
       (size_t_minus (CommonHalf_substr h) (CommonHalf_suffix h))
       (size_t_wrap (CommonHalf_suffix h + CommonHalf_prefix h))"

section \<open>halfmatch.h\<close>

text \<open>
  \<open>HalfMatch\<close> holds the results for the second and the third quarter and a pointer
  \<open>_winner\<close> to one of them, or null. \<open>HalfMatch_select\<close> is the body of the
  constructor, which chooses the pointer; the member initialisers before it construct
  the two results, for the indices \<open>(n + 3) / 4\<close> and \<open>(n + 1) / 2\<close> of a long text of
  \<open>n\<close> characters. As for \<open>CommonHalf\<close>, \<open>short_null\<close> says whether the short text is a
  default-constructed one.
\<close>

datatype Quarter = Q2 | Q3

record HalfMatch =
  HalfMatch_q2 :: CommonHalf
  HalfMatch_q3 :: CommonHalf
  HalfMatch_winner :: "Quarter option"

definition HalfMatch_select :: "CommonHalf \<Rightarrow> CommonHalf \<Rightarrow> Quarter option" where
  "HalfMatch_select q2 q3 =
     (if CommonHalf_valid q2 \<and> CommonHalf_valid q3
      then (if CommonHalf_characters q2 > CommonHalf_characters q3 then Some Q2 else Some Q3)
      else if CommonHalf_valid q2 then Some Q2
      else if CommonHalf_valid q3 then Some Q3
      else None)"

definition HalfMatch_ctor :: "bool \<Rightarrow> Ascii \<Rightarrow> Ascii \<Rightarrow> HalfMatch outcome option" where
  "HalfMatch_ctor short_null longtext shorttext =
     (case CommonHalf_ctor_ptr short_null longtext shorttext
             ((Ascii_characters longtext + 3) div 4) of
        None \<Rightarrow> None
      | Some UndefinedBehaviour \<Rightarrow> Some UndefinedBehaviour
      | Some (Done q2) \<Rightarrow>
          (case CommonHalf_ctor_ptr short_null longtext shorttext
                  ((Ascii_characters longtext + 1) div 2) of
             None \<Rightarrow> None
           | Some UndefinedBehaviour \<Rightarrow> Some UndefinedBehaviour
           | Some (Done q3) \<Rightarrow>
               Some (Done \<lparr> HalfMatch_q2 = q2, HalfMatch_q3 = q3,
                            HalfMatch_winner = HalfMatch_select q2 q3 \<rparr>)))"

definition HalfMatch_valid :: "HalfMatch \<Rightarrow> bool" where
  "HalfMatch_valid h = (HalfMatch_winner h \<noteq> None)"

text \<open>\<open>_winner->\<close>: dereferencing the null pointer is undefined.\<close>

definition HalfMatch_deref :: "HalfMatch \<Rightarrow> CommonHalf outcome" where
  "HalfMatch_deref h =
     (case HalfMatch_winner h of
        None \<Rightarrow> UndefinedBehaviour
      | Some Q2 \<Rightarrow> Done (HalfMatch_q2 h)
      | Some Q3 \<Rightarrow> Done (HalfMatch_q3 h))"

section \<open>limits.h, deadline.h\<close>

text \<open>
  \<open>Limits\<close> is a bag of settings; \<open>timeout\<close> is a \<open>float\<close>, a rational number here
  (the one computation on it, \<open>timeout * CLOCKS_PER_SEC\<close> narrowed to \<open>clock_t\<close>, is
  exact for the default and approximate otherwise). \<open>clock()\<close> reads the processor
  time: its value is a parameter of each function that calls it. \<open>clock_t\<close> and
  \<open>time_t\<close> are signed 64-bit integers and \<open>CLOCKS_PER_SEC\<close> is one million, as on
  Linux. For a positive \<open>timeout\<close> the value of \<open>Limits_deadline\<close> is that of the code
  as long as the product is a \<open>float\<close> and the sum stays in the range of \<open>clock_t\<close>;
  neither the rounding nor the range is modelled. \<open>Patch\<close> reads a deadline through its
  conversion to \<open>bool\<close> only.
\<close>

record Limits =
  Limits_timeout :: rat
  Limits_editcost :: int
  Limits_Match_Threshold :: rat
  Limits_Match_Distance :: int
  Limits_Patch_DeleteThreshold :: rat
  Limits_Patch_Margin :: int
  Limits_Match_MaxBits :: int

definition Limits_ctor :: Limits where
  "Limits_ctor =
     \<lparr> Limits_timeout = 1, Limits_editcost = 4, Limits_Match_Threshold = 1 / 2,
       Limits_Match_Distance = 1000, Limits_Patch_DeleteThreshold = 1 / 2,
       Limits_Patch_Margin = 4, Limits_Match_MaxBits = 32 \<rparr>"

definition CLOCKS_PER_SEC :: int where
  "CLOCKS_PER_SEC = 1000000"

definition clock_t_max :: int where
  "clock_t_max = 9223372036854775807"

definition Limits_deadline :: "Limits \<Rightarrow> int \<Rightarrow> int" where
  "Limits_deadline limits clock =
     (if Limits_timeout limits \<le> 0 then clock_t_max
      else clock + \<lfloor>Limits_timeout limits * of_int CLOCKS_PER_SEC\<rfloor>)"

text \<open>
  \<open>Deadline\<close>: the start time and \<open>_max\<close>, "number of seconds that the operation may
  take (0 for infinity)". The cast to \<open>bool\<close> is \<open>_max > 0\<close>.
\<close>

record Deadline =
  Deadline_start :: int
  Deadline_max :: int

definition Deadline_ctor0 :: "int \<Rightarrow> Deadline" where
  "Deadline_ctor0 clock = \<lparr> Deadline_start = clock, Deadline_max = 0 \<rparr>"

definition Deadline_ctor :: "int \<Rightarrow> int \<Rightarrow> Deadline" where
  "Deadline_ctor clock seconds = \<lparr> Deadline_start = clock, Deadline_max = seconds \<rparr>"

definition Deadline_bool :: "Deadline \<Rightarrow> bool" where
  "Deadline_bool d = (Deadline_max d > 0)"

definition Deadline_not :: "Deadline \<Rightarrow> bool" where
  "Deadline_not d = (Deadline_max d = 0)"

section \<open>patch.h: the passes of the optimizer\<close>

text \<open>
  A \<open>Patch\<close> is a \<open>std::list<Diff> _diffs\<close>, a list here; an iterator is an index
  into it, and \<open>end()\<close> is its length. The methods change \<open>_diffs\<close> in place: each
  one takes the list and returns the new one.
\<close>

type_synonym Patch = "Diff list"

definition list_erase :: "'a list \<Rightarrow> nat \<Rightarrow> 'a list" where
  "list_erase xs i = take i xs @ drop (Suc i) xs"

text \<open>
  \<open>Diff(operation, size, begin, end)\<close>: one buffer of \<open>size\<close> bytes that the buffers of
  the range are copied into, one after the other. (The one caller passes their total
  size.)
\<close>

definition Diff_ctor_range :: "Operation \<Rightarrow> nat \<Rightarrow> Diff list \<Rightarrow> Diff" where
  "Diff_ctor_range operation sz rng = Diff operation (concat (map Diff_buffer rng))"

text \<open>
  \<open>Patch::mergeUpdates\<close>. The loop visits every element; \<open>rest\<close> holds the elements
  from \<open>iter\<close> on and \<open>i\<close> is the index of \<open>iter\<close>. \<open>updates\<close> is an iterator that
  starts as \<open>end()\<close> (\<open>None\<close>) and is set at the first element that is not \<open>EQUAL\<close>.
  At an \<open>EQUAL\<close> element the source leaves the \<open>switch\<close> when \<open>updates\<close> is set
  (\<open>if (updates != _diffs.end()) break;\<close>); otherwise its next statement is
  \<open>_diffs.erase(updates, iter)\<close> with \<open>updates == end()\<close> and \<open>iter\<close> an element:
  not a valid range, hence undefined. The statements after it (the common prefix and
  suffix of the merged buffers, the \<open>emplace\<close> calls, the reset of \<open>updates\<close>) are only
  reached through that call. Nothing follows the loop.
\<close>

fun mergeUpdates_loop ::
  "Patch \<Rightarrow> nat \<Rightarrow> nat option \<Rightarrow> Buffer \<Rightarrow> Buffer \<Rightarrow> Diff list \<Rightarrow> Patch outcome" where
  "mergeUpdates_loop ds i updates mergedInsert mergedDelete [] = Done ds"
| "mergeUpdates_loop ds i updates mergedInsert mergedDelete (d # rest) =
     (let updates' = (if updates = None \<and> Diff_operation d \<noteq> EQUAL then Some i else updates)
      in case Diff_operation d of
           INSERT \<Rightarrow>
             mergeUpdates_loop ds (i + 1) updates'
               (Buffer_append mergedInsert (Diff_buffer d)) mergedDelete rest
         | DELETE \<Rightarrow>
             mergeUpdates_loop ds (i + 1) updates'
               mergedInsert (Buffer_append mergedDelete (Diff_buffer d)) rest
         | EQUAL \<Rightarrow>
             if updates' \<noteq> None
             then mergeUpdates_loop ds (i + 1) updates' mergedInsert mergedDelete rest
             else UndefinedBehaviour)"

definition mergeUpdates :: "Patch \<Rightarrow> Patch outcome" where
  "mergeUpdates ds = mergeUpdates_loop ds 0 None [] [] ds"

text \<open>
  \<open>Patch::mergeEquals\<close>. The list is \<open>front @ run @ rest\<close>: \<open>run\<close> is the range from
  \<open>begin\<close> to \<open>iter\<close> (the \<open>EQUAL\<close> elements seen since the last other element, \<open>count\<close>
  of them with \<open>sz\<close> bytes together), \<open>rest\<close> starts at \<open>iter\<close>. A run of two or more
  is replaced by one \<open>EQUAL\<close> built from the range, at an element that is not \<open>EQUAL\<close>
  and after the loop.
\<close>

fun mergeEquals_loop :: "Diff list \<Rightarrow> Diff list \<Rightarrow> nat \<Rightarrow> nat \<Rightarrow> Diff list \<Rightarrow> Patch" where
  "mergeEquals_loop front run sz count [] =
     (if count < 2 then front @ run
      else front @ [Diff_ctor_range EQUAL sz run])"
| "mergeEquals_loop front run sz count (d # rest) =
     (if Diff_operation d = EQUAL
      then mergeEquals_loop front (run @ [d]) (sz + Diff_bytes d) (count + 1) rest
      else if count > 1
      then mergeEquals_loop (front @ [Diff_ctor_range EQUAL sz run] @ [d]) [] 0 0 rest
      else mergeEquals_loop (front @ run @ [d]) [] 0 0 rest)"

definition mergeEquals :: "Patch \<Rightarrow> Patch" where
  "mergeEquals ds = mergeEquals_loop [] [] 0 0 ds"

text \<open>
  \<open>Patch::shift\<close>. The two tests of the loop body, each a size test and then a
  \<open>compare\<close> against zero.
\<close>

definition shift_over_prev :: "Diff \<Rightarrow> Diff \<Rightarrow> bool outcome" where
  "shift_over_prev current prev =
     (if Diff_bytes current \<ge> Diff_bytes prev
      then (case Buffer_compare3 (Diff_buffer current) (Diff_bytes current - Diff_bytes prev)
                   (Diff_bytes prev) (Diff_buffer prev) of
              UndefinedBehaviour \<Rightarrow> UndefinedBehaviour
            | Done r \<Rightarrow> Done (r = 0))
      else Done False)"

definition shift_over_next :: "Diff \<Rightarrow> Diff \<Rightarrow> bool outcome" where
  "shift_over_next current nxt =
     (if Diff_bytes current \<ge> Diff_bytes nxt
      then (case Buffer_compare3 (Diff_buffer current) 0 (Diff_bytes nxt) (Diff_buffer nxt) of
              UndefinedBehaviour \<Rightarrow> UndefinedBehaviour
            | Done r \<Rightarrow> Done (r = 0))
      else Done False)"

text \<open>
  The loop \<open>while (next != _diffs.end())\<close>. The three iterators are neighbours at the
  head of every iteration: \<open>prev\<close> is an index, \<open>current\<close> and \<open>next\<close> are the two
  after it. Each of the three \<open>continue\<close> statements jumps to the loop test with the
  iterators and the list as they are. After the first branch the element at \<open>prev\<close> is
  erased, so \<open>current\<close> has moved to that index. After the second branch \<open>next\<close> is
  what \<open>erase\<close> returns, and the closing \<open>++next\<close> moves it past \<open>end()\<close> when the
  erased element was the last one.
\<close>

partial_function (option) shift_loop ::
  "Patch \<Rightarrow> nat \<Rightarrow> nat \<Rightarrow> (nat \<times> Patch) outcome option" where
  "shift_loop ds prev changes =
     (let current = prev + 1; nxt = prev + 2 in
      if nxt < length ds then
        (if Diff_operation (ds ! nxt) \<noteq> EQUAL then shift_loop ds prev changes
         else if Diff_operation (ds ! current) = EQUAL then shift_loop ds prev changes
         else if Diff_operation (ds ! prev) \<noteq> EQUAL then shift_loop ds prev changes
         else case shift_over_prev (ds ! current) (ds ! prev) of
           UndefinedBehaviour \<Rightarrow> Some UndefinedBehaviour
         | Done over_prev \<Rightarrow>
             if over_prev then
             (let p = Diff_buffer (ds ! prev);
                  current' = Diff (Diff_operation (ds ! current))
                               (Buffer_prepend (Buffer_shrink (Diff_buffer (ds ! current)) (Buffer_bytes p)) p);
                  next' = Diff (Diff_operation (ds ! nxt)) (Buffer_prepend (Diff_buffer (ds ! nxt)) p);
                  ds' = list_erase (ds[current := current', nxt := next']) prev
              in shift_loop ds' prev (changes + 1))
             else
             (case shift_over_next (ds ! current) (ds ! nxt) of
                UndefinedBehaviour \<Rightarrow> Some UndefinedBehaviour
              | Done over_next \<Rightarrow>
                  if over_next then
                  (let n = Diff_buffer (ds ! nxt);
                       prev' = Diff (Diff_operation (ds ! prev)) (Buffer_append (Diff_buffer (ds ! prev)) n);
                       current' = Diff (Diff_operation (ds ! current))
                                    (Buffer_append (Buffer_skip (Diff_buffer (ds ! current)) (Buffer_bytes n)) n);
                       ds' = list_erase (ds[prev := prev', current := current']) nxt
                   in if nxt < length ds' then shift_loop ds' current (changes + 1)
                      else Some UndefinedBehaviour)
                  else shift_loop ds current changes))
      else Some (Done ((if changes > 0 then 1 else 0), ds)))"

declare shift_loop.simps [code]

text \<open>
  The iterators start as \<open>begin()\<close>, \<open>std::next(prev)\<close> and \<open>std::next(current)\<close>:
  with fewer than two elements the last one steps past \<open>end()\<close>.
\<close>

definition shift :: "Patch \<Rightarrow> (nat \<times> Patch) outcome option" where
  "shift ds = (if length ds < 2 then Some UndefinedBehaviour else shift_loop ds 0 0)"

text \<open>\<open>Patch::optimize\<close>: \<open>do { mergeUpdates(); mergeEquals(); } while (shift() > 0);\<close>\<close>

partial_function (option) optimize :: "Patch \<Rightarrow> Patch outcome option" where
  "optimize ds =
     (case mergeUpdates ds of
        UndefinedBehaviour \<Rightarrow> Some UndefinedBehaviour
      | Done ds1 \<Rightarrow>
          (case shift (mergeEquals ds1) of
             None \<Rightarrow> None
           | Some UndefinedBehaviour \<Rightarrow> Some UndefinedBehaviour
           | Some (Done (changed, ds2)) \<Rightarrow>
               if changed > 0 then optimize ds2 else Some (Done ds2)))"

declare optimize.simps [code]

section \<open>patch.h: building the list\<close>

text \<open>
  \<open>Patch::overlap\<close>: true when the pair is decided, with the operations it appended.
\<close>

definition overlap :: "Patch \<Rightarrow> Ascii \<Rightarrow> Ascii \<Rightarrow> bool \<times> Patch" where
  "overlap ds text1 text2 =
     (let ov = CommonOverlap_ctor text1 text2 in
      if CommonOverlap_bool ov then
        (True, ds @ [Diff (CommonOverlap_operation ov) (CommonOverlap_prefix ov),
                     Diff EQUAL (CommonOverlap_buffer ov),
                     Diff (CommonOverlap_operation ov) (CommonOverlap_suffix ov)])
      else if Ascii_characters text1 = 1 \<or> Ascii_characters text2 = 1 then
        (True, ds @ [Diff DELETE (Ascii_buffer text1), Diff INSERT (Ascii_buffer text2)])
      else (False, ds))"

text \<open>\<open>Patch::linemode\<close> and \<open>Patch::bisect\<close> have empty bodies (\<open>@todo\<close>).\<close>

definition linemode :: "Patch \<Rightarrow> Ascii \<Rightarrow> Ascii \<Rightarrow> Deadline \<Rightarrow> Patch" where
  "linemode ds text1 text2 deadline = ds"

definition bisect :: "Patch \<Rightarrow> Ascii \<Rightarrow> Ascii \<Rightarrow> Deadline \<Rightarrow> Patch" where
  "bisect ds text1 text2 deadline = ds"

text \<open>
  The private constructor \<open>Patch(limits, input1, input2, checklines, deadline)\<close>,
  \<open>Patch::compute\<close> and \<open>Patch::halfmatch\<close> call each other. \<open>compute\<close> and
  \<open>halfmatch\<close> append to \<open>_diffs\<close>; \<open>halfmatch\<close> also answers whether it succeeded.
  In \<open>halfmatch\<close> the long text is \<open>text1\<close> when it has more characters and \<open>text2\<close>
  otherwise, told apart by address afterwards (the two are distinct objects at the one
  call site). The short text that reaches the \<open>HalfMatch\<close> constructor has bytes (twice
  its size is at least the size of the long text, which is 4 or more), hence storage.
  In the constructor \<open>suffix.buffer()\<close> reads through a reference to a temporary that
  is gone by then; the model gives it the bytes of that temporary.
\<close>

function Patch5 :: "Limits \<Rightarrow> Ascii \<Rightarrow> Ascii \<Rightarrow> bool \<Rightarrow> Deadline \<Rightarrow> Patch outcome option"
  and compute :: "Patch \<Rightarrow> Limits \<Rightarrow> Ascii \<Rightarrow> Ascii \<Rightarrow> bool \<Rightarrow> Deadline \<Rightarrow> Patch outcome option"
  and halfmatch ::
    "Patch \<Rightarrow> Limits \<Rightarrow> Ascii \<Rightarrow> Ascii \<Rightarrow> bool \<Rightarrow> Deadline \<Rightarrow> (bool \<times> Patch) outcome option"
where
  "Patch5 limits input1 input2 checklines deadline =
     (if Ascii_eq input1 input2 then
        (if Ascii_bytes input1 = 0 then Some (Done [])
         else Some (Done [Diff EQUAL (Ascii_buffer input1)]))
      else
        (let prefix = CommonPrefix_ctor input1 input2;
             suffix = CommonSuffix_ctor (Ascii_substr input1 (CommonPrefix_characters prefix))
                                        (Ascii_substr input2 (CommonPrefix_characters prefix));
             ds0 = (if CommonPrefix_characters prefix > 0
                    then [Diff EQUAL (CommonPrefix_buffer prefix)] else []);
             common = CommonPrefix_characters prefix + CommonSuffix_characters suffix
         in case compute ds0 limits
                   (Ascii_substr2 input1 (CommonPrefix_characters prefix) common)
                   (Ascii_substr2 input2 (CommonPrefix_characters prefix) common)
                   checklines deadline of
              None \<Rightarrow> None
            | Some UndefinedBehaviour \<Rightarrow> Some UndefinedBehaviour
            | Some (Done ds1) \<Rightarrow>
                optimize (if CommonSuffix_characters suffix > 0
                          then ds1 @ [Diff EQUAL (CommonSuffix_buffer suffix)] else ds1)))"
| "compute ds limits text1 text2 checklines deadline =
     (if Ascii_characters text1 = 0 then Some (Done (ds @ [Diff INSERT (Ascii_buffer text2)]))
      else if Ascii_characters text2 = 0 then Some (Done (ds @ [Diff DELETE (Ascii_buffer text1)]))
      else case overlap ds text1 text2 of
        (True, ds1) \<Rightarrow> Some (Done ds1)
      | (False, ds1) \<Rightarrow>
          (case (if Deadline_bool deadline
                 then halfmatch ds1 limits text1 text2 checklines deadline
                 else Some (Done (False, ds1))) of
             None \<Rightarrow> None
           | Some UndefinedBehaviour \<Rightarrow> Some UndefinedBehaviour
           | Some (Done (True, ds2)) \<Rightarrow> Some (Done ds2)
           | Some (Done (False, ds2)) \<Rightarrow>
               if checklines \<and> Ascii_characters text1 > 100 \<and> Ascii_characters text2 > 100
               then Some (Done (linemode ds2 text1 text2 deadline))
               else Some (Done (bisect ds2 text1 text2 deadline))))"
| "halfmatch ds limits text1 text2 checklines deadline =
     (let long_is_text1 = (Ascii_characters text1 > Ascii_characters text2);
          longtext = (if long_is_text1 then text1 else text2);
          shorttext = (if long_is_text1 then text2 else text1)
      in if Ascii_characters longtext < 4
            \<or> Ascii_characters shorttext * 2 < Ascii_characters longtext
         then Some (Done (False, ds))
         else case HalfMatch_ctor False longtext shorttext of
           None \<Rightarrow> None
         | Some UndefinedBehaviour \<Rightarrow> Some UndefinedBehaviour
         | Some (Done result) \<Rightarrow>
             if \<not> HalfMatch_valid result then Some (Done (False, ds))
             else (case HalfMatch_deref result of
               UndefinedBehaviour \<Rightarrow> Some UndefinedBehaviour
             | Done winner \<Rightarrow>
                 if long_is_text1 then
                   (case Patch5 limits (CommonHalf_longPrefix winner) (CommonHalf_shortPrefix winner)
                           checklines deadline of
                      None \<Rightarrow> None
                    | Some UndefinedBehaviour \<Rightarrow> Some UndefinedBehaviour
                    | Some (Done part1) \<Rightarrow>
                        (case Patch5 limits (CommonHalf_longSuffix winner) (CommonHalf_shortSuffix winner)
                                checklines deadline of
                           None \<Rightarrow> None
                         | Some UndefinedBehaviour \<Rightarrow> Some UndefinedBehaviour
                         | Some (Done part2) \<Rightarrow>
                             Some (Done (True, ds @ part1
                                              @ [Diff EQUAL (Ascii_buffer (CommonHalf_common winner))]
                                              @ part2))))
                 else
                   (case Patch5 limits (CommonHalf_shortPrefix winner) (CommonHalf_longPrefix winner)
                           checklines deadline of
                      None \<Rightarrow> None
                    | Some UndefinedBehaviour \<Rightarrow> Some UndefinedBehaviour
                    | Some (Done part1) \<Rightarrow>
                        (case Patch5 limits (CommonHalf_shortSuffix winner) (CommonHalf_longSuffix winner)
                                checklines deadline of
                           None \<Rightarrow> None
                         | Some UndefinedBehaviour \<Rightarrow> Some UndefinedBehaviour
                         | Some (Done part2) \<Rightarrow>
                             Some (Done (True, ds @ part1
                                              @ [Diff EQUAL (Ascii_buffer (CommonHalf_common winner))]
                                              @ part2))))))"
  by pat_completeness auto

text \<open>
  The recursion ends. The constructor passes \<open>compute\<close> parts of its inputs; and
  \<open>halfmatch\<close> only calls the constructor for a valid \<open>HalfMatch\<close> of a long text of
  four characters or more, a case that does not arise: \<open>_prefix\<close> and \<open>_suffix\<close> stay
  0 in \<open>CommonHalf\<close>, which makes a result valid for the empty long text only.
\<close>

lemma Ascii_substr2_length: "length (Ascii_substr2 b s n) \<le> length b"
  by (auto simp add: Ascii_substr2_def Buffer_part2_eq Buffer_returned_def)

lemma Ascii_substr2_measure:
  "3 * length (Ascii_substr2 a s n) + 3 * length (Ascii_substr2 b s' n')
     < Suc (3 * length a + 3 * length b)"
  using Ascii_substr2_length[of a s n] Ascii_substr2_length[of b s' n'] by arith

lemma CommonHalf_loop_keeps:
  assumes "CommonHalf_loop short_null self seed pos = Some y"
  shows "case y of
           UndefinedBehaviour \<Rightarrow> True
         | Done r \<Rightarrow>
             CommonHalf_prefix r = CommonHalf_prefix self
             \<and> CommonHalf_suffix r = CommonHalf_suffix self
             \<and> CommonHalf_longtext r = CommonHalf_longtext self"
  using assms
proof (induct rule: CommonHalf_loop.raw_induct[rotated 1, consumes 1])
  case (1 loop short_null self seed pos y)
  show ?case
  proof (cases "pos = 2147483647")
    case True
    with 1(2) show ?thesis by auto
  next
    case False
    note not_max = this
    show ?thesis
    proof (cases "Ascii_find2_ptr short_null (CommonHalf_shorttext self) seed (to_size_t (pos + 1))")
      case UndefinedBehaviour
      with not_max 1(2) show ?thesis by auto
    next
      case (Done found)
      show ?thesis
      proof (cases "0 \<le> to_int32 found")
        case False
        with not_max Done 1(2) show ?thesis by auto
      next
        case True
        with not_max Done 1(2)
        have "loop short_null self seed (to_int32 found) = Some y
              \<or> loop short_null (self\<lparr>CommonHalf_substr := to_size_t (to_int32 found)\<rparr>) seed
                   (to_int32 found) = Some y"
          by (simp add: Let_def split: if_splits)
        then show ?thesis
        proof
          assume "loop short_null self seed (to_int32 found) = Some y"
          then show ?thesis by (rule 1(1))
        next
          assume "loop short_null (self\<lparr>CommonHalf_substr := to_size_t (to_int32 found)\<rparr>) seed
                    (to_int32 found) = Some y"
          from 1(1)[OF this] show ?thesis by (cases y) simp_all
        qed
      qed
    qed
  qed
qed

lemma CommonHalf_ctor_valid:
  assumes "CommonHalf_ctor_ptr short_null longtext shorttext index = Some (Done r)"
  shows "CommonHalf_valid r \<longleftrightarrow> longtext = []"
    and "CommonHalf_characters r = 0"
  using CommonHalf_loop_keeps[OF assms[unfolded CommonHalf_ctor_ptr_def Let_def]]
  by (simp_all add: CommonHalf_valid_def CommonHalf_characters_def size_t_wrap_def
      Ascii_characters_def Buffer_bytes_def)

lemma HalfMatch_ctor_valid:
  assumes "HalfMatch_ctor short_null longtext shorttext = Some (Done result)"
    and "HalfMatch_valid result"
  shows "longtext = []"
  using assms
  by (auto simp: HalfMatch_ctor_def HalfMatch_valid_def HalfMatch_select_def
      CommonHalf_ctor_valid(1) split: option.splits outcome.splits if_splits)

termination Patch5
  apply (relation "measure (\<lambda>x. case x of
      Inl (limits, input1, input2, checklines, deadline) \<Rightarrow>
        3 * (length input1 + length input2) + 2
    | Inr (Inl (ds, limits, text1, text2, checklines, deadline)) \<Rightarrow>
        3 * (length text1 + length text2) + 1
    | Inr (Inr (ds, limits, text1, text2, checklines, deadline)) \<Rightarrow>
        3 * (length text1 + length text2))")
  subgoal by simp
  subgoal by (simp add: Ascii_substr2_measure)
  subgoal by simp
  subgoal premises prems for ds limits text1 text2 checklines deadline x xa xb x2 x1 x1a
  proof -
    from prems have "HalfMatch_ctor False xa xb = Some (Done x1)" and "HalfMatch_valid x1"
      by simp_all
    then have "xa = []" by (rule HalfMatch_ctor_valid)
    with prems(4) show ?thesis
      by (simp add: Ascii_characters_def Buffer_bytes_def)
  qed
  subgoal premises prems for ds limits text1 text2 checklines deadline x xa xb x2 x1 x1a
  proof -
    from prems have "HalfMatch_ctor False xa xb = Some (Done x1)" and "HalfMatch_valid x1"
      by simp_all
    then have "xa = []" by (rule HalfMatch_ctor_valid)
    with prems(4) show ?thesis
      by (simp add: Ascii_characters_def Buffer_bytes_def)
  qed
  subgoal premises prems for ds limits text1 text2 checklines deadline x xa xb x2 x1 x1a
  proof -
    from prems have "HalfMatch_ctor False xa xb = Some (Done x1)" and "HalfMatch_valid x1"
      by simp_all
    then have "xa = []" by (rule HalfMatch_ctor_valid)
    with prems(4) show ?thesis
      by (simp add: Ascii_characters_def Buffer_bytes_def)
  qed
  subgoal premises prems for ds limits text1 text2 checklines deadline x xa xb x2 x1 x1a
  proof -
    from prems have "HalfMatch_ctor False xa xb = Some (Done x1)" and "HalfMatch_valid x1"
      by simp_all
    then have "xa = []" by (rule HalfMatch_ctor_valid)
    with prems(4) show ?thesis
      by (simp add: Ascii_characters_def Buffer_bytes_def)
  qed
  done

text \<open>
  The public constructor \<open>Patch(limits, input1, input2, checklines)\<close> passes
  \<open>limits.deadline()\<close>, a \<open>clock_t\<close>, where a \<open>Deadline\<close> is expected: the converting
  constructor \<open>Deadline(time_t seconds)\<close> takes it. \<open>clock1\<close> and \<open>clock2\<close> are what
  the two calls of \<open>clock()\<close> return.
\<close>

definition Patch4 :: "Limits \<Rightarrow> Ascii \<Rightarrow> Ascii \<Rightarrow> bool \<Rightarrow> int \<Rightarrow> int \<Rightarrow> Patch outcome option" where
  "Patch4 limits input1 input2 checklines clock1 clock2 =
     Patch5 limits input1 input2 checklines (Deadline_ctor clock2 (Limits_deadline limits clock1))"

text \<open>
  The three equations are recursive; they are unfolded by name where a proof needs them.
\<close>

declare Patch5.simps [simp del] compute.simps [simp del] halfmatch.simps [simp del]

section \<open>What the specification asks of a patch\<close>

text \<open>
  The reconstruction of the two texts from a patch, in the specification's words: the
  spans whose operation is not \<open>INSERT\<close> give the first text, those whose operation is
  not \<open>DELETE\<close> the second. And the adjacency the optimizer is to remove: two
  neighbours with the same operation.
\<close>

definition text1_of :: "Patch \<Rightarrow> Buffer" where
  "text1_of ds = concat (map Diff_buffer (filter (\<lambda>d. Diff_operation d \<noteq> INSERT) ds))"

definition text2_of :: "Patch \<Rightarrow> Buffer" where
  "text2_of ds = concat (map Diff_buffer (filter (\<lambda>d. Diff_operation d \<noteq> DELETE) ds))"

fun adjacent_same :: "Patch \<Rightarrow> bool" where
  "adjacent_same (a # b # rest) =
     (Diff_operation a = Diff_operation b \<or> adjacent_same (b # rest))"
| "adjacent_same rest = False"

section \<open>Evaluating the model\<close>

text \<open>The definitions that a run on concrete texts unfolds.\<close>

lemmas eval_defs = Ascii_eq_def Ascii_compare_def Buffer_compare_def Ascii_bytes_def Buffer_bytes_def
  Ascii_buffer_def Ascii_buffer1_def Ascii_buffer2_def Ascii_characters_def Ascii_find_def Ascii_find2_def
  Ascii_substr_def Ascii_substr2_def Ascii_begin_def Ascii_rbegin_def
  Buffer_part_eq Buffer_part2_eq Buffer_returned_def Buffer_find_def Buffer_find2_def
  CommonPrefix_ctor_def CommonPrefix_buffer_def CommonPrefix_characters_def
  CommonSuffix_ctor_def CommonSuffix_buffer_def CommonSuffix_characters_def
  CommonOverlap_ctor_def CommonOverlap_bool_def CommonOverlap_prefix_def CommonOverlap_suffix_def
  CommonOverlap_buffer_def CommonOverlap_operation_def
  size_t_minus_def to_size_t_def to_int32_def overlap_def linemode_def bisect_def
  Diff_bytes_def Let_def

lemmas half_defs = HalfMatch_ctor_def CommonHalf_ctor_def
  CommonHalf_ctor_ptr_def CommonHalf_loop.simps Ascii_find2_ptr_def Buffer_find2_null_def
  HalfMatch_select_def HalfMatch_valid_def CommonHalf_valid_def CommonHalf_characters_def
  size_t_wrap_def

lemma memcmp_same: "memcmp xs xs n = 0"
proof (induction xs arbitrary: n)
  case Nil
  then show ?case by simp
next
  case (Cons x xs)
  then show ?case by (cases n) simp_all
qed

lemma Ascii_eq_same: "Ascii_eq T T"
  by (simp add: Ascii_eq_def Ascii_compare_def Buffer_compare_def memcmp_same)

section \<open>Identical inputs\<close>

text \<open>
  C8. For every limits and every text \<open>T\<close>, \<open>Patch(limits, T, T)\<close> returns the
  empty list when \<open>T\<close> is empty and otherwise exactly one \<open>Diff\<close>, \<open>EQUAL\<close> with
  span \<open>T\<close>: the constructor returns it, whatever the clock and \<open>checklines\<close> are.
\<close>

theorem Patch4_identity:
  "Patch4 limits T T checklines clock1 clock2 = Some (Done (if T = [] then [] else [Diff EQUAL T]))"
  by (simp add: Patch4_def Patch5.simps Ascii_eq_same Ascii_bytes_def Buffer_bytes_def Ascii_buffer_def)

theorem Patch4_identity_witness:
  "Patch4 Limits_ctor ''hallo daar'' ''hallo daar'' True 0 0 = Some (Done [Diff EQUAL ''hallo daar''])
   \<and> Patch4 Limits_ctor [] [] True 0 0 = Some (Done [])"
  using Patch4_identity [of Limits_ctor "''hallo daar''" True 0 0]
    Patch4_identity [of Limits_ctor "[]" True 0 0]
  by simp

section \<open>Reconstruction\<close>

lemma compute_empty_empty:
  "compute ds limits [] [] checklines deadline = Some (Done (ds @ [Diff INSERT []]))"
  by (simp add: compute.simps eval_defs)

lemma optimize_INSERT_empty:
  "optimize [Diff INSERT []] = Some UndefinedBehaviour"
  by (simp add: optimize.simps mergeUpdates_def mergeEquals_def shift_def)

text \<open>
  C1. The claim is that the patch of every two texts reconstructs both. For the empty
  text and \<open>abc\<close> the constructor finds no common prefix or suffix and passes
  \<open>compute\<close> the parts \<open>substr(0, 0)\<close> of both inputs (the start and the amount of
  common data, where the length of the middle part was meant), two empty texts;
  \<open>compute\<close> appends the insertion of the empty text, whose reconstruction of the
  second text is empty; and \<open>optimize\<close> then steps an iterator past the end of the
  one-element list in \<open>shift\<close>. No patch is returned that reconstructs the inputs.
\<close>

theorem Patch4_empty_abc:
  "Patch4 limits [] ''abc'' checklines clock1 clock2 = Some UndefinedBehaviour
   \<and> compute [] limits (Ascii_substr2 [] 0 0) (Ascii_substr2 ''abc'' 0 0) checklines deadline
       = Some (Done [Diff INSERT []])
   \<and> text2_of [Diff INSERT []] = []
   \<and> \<not> (\<exists>ds. Patch4 limits [] ''abc'' checklines clock1 clock2 = Some (Done ds)
             \<and> text1_of ds = [] \<and> text2_of ds = ''abc'')"
proof -
  have sub: "Ascii_substr2 [] 0 0 = []" "Ascii_substr2 ''abc'' 0 0 = []"
    by (simp_all add: eval_defs)
  have "Patch4 limits [] ''abc'' checklines clock1 clock2 = Some UndefinedBehaviour"
    by (simp add: Patch4_def Patch5.simps compute_empty_empty optimize_INSERT_empty eval_defs)
  then show ?thesis
    by (simp add: sub compute_empty_empty text2_of_def)
qed

section \<open>The overlap short-circuit\<close>

text \<open>
  C2. The claim is that for a shorter text found at offset \<open>k\<close> of the longer one,
  \<open>overlap\<close> emits the longer text before \<open>k\<close>, the shorter text as \<open>EQUAL\<close>, and
  the longer text after the end of the overlap. \<open>CommonOverlap::suffix()\<close> returns the
  longer text from \<open>_skip\<close> on, the overlap included: for \<open>xabcy\<close> and \<open>abc\<close>
  (offset 1) the third operation has the span \<open>abcy\<close>, not \<open>y\<close>, in both directions,
  and \<open>compute\<close> returns with these three operations.
\<close>

theorem overlap_suffix_from_skip:
  "overlap [] ''xabcy'' ''abc''
     = (True, [Diff DELETE ''x'', Diff EQUAL ''abc'', Diff DELETE ''abcy''])
   \<and> overlap [] ''abc'' ''xabcy''
     = (True, [Diff INSERT ''x'', Diff EQUAL ''abc'', Diff INSERT ''abcy''])
   \<and> CommonOverlap_skip (CommonOverlap_ctor ''xabcy'' ''abc'') = 1
   \<and> CommonOverlap_suffix (CommonOverlap_ctor ''xabcy'' ''abc'') \<noteq> ''y''
   \<and> compute ds limits ''xabcy'' ''abc'' checklines deadline
       = Some (Done (ds @ [Diff DELETE ''x'', Diff EQUAL ''abc'', Diff DELETE ''abcy'']))"
  by (simp add: compute.simps eval_defs)

section \<open>The half-match search\<close>

text \<open>
  C3. The claim is that \<open>CommonHalf\<close> records the occurrence of the seed with the
  largest common prefix plus common suffix around it, and is valid if and only if twice
  that length is at least the long text's length. For the long text \<open>abcdefgh\<close>, the
  short text \<open>cdefcd\<close> and the second-quarter index 2 the seed \<open>cd\<close> occurs at 0,
  with 4 + 0 common characters, and at 4, with 2 + 0. The constructor ends with
  \<open>_substr = 4\<close>, the last occurrence, and with \<open>_prefix = _suffix = 0\<close>, so that the
  result is not valid, though twice 4 is the long text's length.
\<close>

theorem CommonHalf_keeps_last_occurrence:
  "CommonHalf_ctor ''abcdefgh'' ''cdefcd'' 2 =
     Some (Done \<lparr> CommonHalf_longtext = ''abcdefgh'', CommonHalf_shorttext = ''cdefcd'',
                  CommonHalf_start = 2, CommonHalf_substr = 4,
                  CommonHalf_prefix = 0, CommonHalf_suffix = 0 \<rparr>)
   \<and> \<not> CommonHalf_valid \<lparr> CommonHalf_longtext = ''abcdefgh'', CommonHalf_shorttext = ''cdefcd'',
                  CommonHalf_start = 2, CommonHalf_substr = 4,
                  CommonHalf_prefix = 0, CommonHalf_suffix = 0 \<rparr>
   \<and> Ascii_find2 ''cdefcd'' (Ascii_substr2 ''abcdefgh'' 2 (8 div 4)) 0 = Done 0
   \<and> CommonPrefix_characters (CommonPrefix_ctor (Ascii_substr ''abcdefgh'' 2) (Ascii_substr ''cdefcd'' 0))
       + CommonSuffix_characters (CommonSuffix_ctor (Ascii_substr2 ''abcdefgh'' 0 2) (Ascii_substr2 ''cdefcd'' 0 0))
       = 4
   \<and> Ascii_find2 ''cdefcd'' (Ascii_substr2 ''abcdefgh'' 2 (8 div 4)) 1 = Done 4
   \<and> CommonPrefix_characters (CommonPrefix_ctor (Ascii_substr ''abcdefgh'' 2) (Ascii_substr ''cdefcd'' 4))
       + CommonSuffix_characters (CommonSuffix_ctor (Ascii_substr2 ''abcdefgh'' 0 2) (Ascii_substr2 ''cdefcd'' 0 4))
       = 2"
  by (simp add: half_defs eval_defs)

section \<open>The optimizer\<close>

text \<open>
  C4. The claim is that \<open>mergeUpdates\<close>, at an \<open>EQUAL\<close> or at the end of the list
  after a run of other operations, replaces the run by the common prefix of the merged
  buffers, the rest of the merged deletion, the rest of the merged insertion and their
  common suffix. The run \<open>DELETE abc, INSERT abd\<close> in front of an \<open>EQUAL\<close> stays as
  it is (the claim gives \<open>EQUAL ab, DELETE c, INSERT d\<close>), and so does a run that ends
  the list, also the insertion of the empty text that the constructor builds for the
  empty text and \<open>abc\<close> (the claim leaves nothing of it); an \<open>EQUAL\<close> that no run
  precedes reaches the \<open>erase\<close> of an invalid range.
\<close>

theorem mergeUpdates_leaves_run:
  "mergeUpdates [Diff DELETE ''abc'', Diff INSERT ''abd'', Diff EQUAL ''x'']
     = Done [Diff DELETE ''abc'', Diff INSERT ''abd'', Diff EQUAL ''x'']
   \<and> mergeUpdates [Diff INSERT ''a'', Diff INSERT ''b'']
     = Done [Diff INSERT ''a'', Diff INSERT ''b'']
   \<and> mergeUpdates [Diff INSERT []] = Done [Diff INSERT []]
   \<and> mergeUpdates [Diff EQUAL ''x'', Diff INSERT ''a'', Diff INSERT ''b'', Diff EQUAL ''y'']
     = UndefinedBehaviour"
  by (simp add: mergeUpdates_def)

lemma shift_loop_stuck:
  assumes "prev + 2 < length ds"
    and "Diff_operation (ds ! (prev + 2)) \<noteq> EQUAL
         \<or> Diff_operation (ds ! (prev + 1)) = EQUAL
         \<or> Diff_operation (ds ! prev) \<noteq> EQUAL"
  shows "shift_loop ds prev changes = None"
proof (rule ccontr)
  assume "shift_loop ds prev changes \<noteq> None"
  then obtain y where y: "shift_loop ds prev changes = Some y" by auto
  have "\<not> (prev + 2 < length ds
            \<and> (Diff_operation (ds ! (prev + 2)) \<noteq> EQUAL
                \<or> Diff_operation (ds ! (prev + 1)) = EQUAL
                \<or> Diff_operation (ds ! prev) \<noteq> EQUAL))"
    using y
  proof (induct rule: shift_loop.raw_induct[rotated 1, consumes 1])
    case (1 loop ds prev changes y)
    show ?case
    proof
      assume stuck: "prev + 2 < length ds
            \<and> (Diff_operation (ds ! (prev + 2)) \<noteq> EQUAL
                \<or> Diff_operation (ds ! (prev + 1)) = EQUAL
                \<or> Diff_operation (ds ! prev) \<noteq> EQUAL)"
      with 1(2) have "loop ds prev changes = Some y"
        by (auto simp: Let_def split: if_splits)
      from 1(1)[OF this] stuck show False by blast
    qed
  qed
  with assms show False by blast
qed

lemma shift_DELETE_INSERT_EQUAL:
  "shift [Diff DELETE ''a'', Diff INSERT ''c'', Diff EQUAL ''b''] = None"
  by (simp add: shift_def shift_loop_stuck)

lemma optimize_DELETE_INSERT_EQUAL:
  "optimize [Diff DELETE ''a'', Diff INSERT ''c'', Diff EQUAL ''b''] = None"
  by (subst optimize.simps)
     (simp add: mergeUpdates_def mergeEquals_def Diff_bytes_def shift_DELETE_INSERT_EQUAL)

lemma compute_a_c:
  "compute ds limits ''a'' ''c'' checklines deadline
     = Some (Done (ds @ [Diff DELETE ''a'', Diff INSERT ''c'']))"
  by (simp add: compute.simps eval_defs)

text \<open>
  C5. The claim is that every pass of the optimizer finishes and that the outer loop
  reaches a state without changes. On \<open>DELETE a, INSERT c, EQUAL b\<close>, the list that the
  constructor builds for \<open>ab\<close> and \<open>cb\<close>, the first triple of \<open>shift\<close> has an \<open>EQUAL\<close>
  as \<open>next\<close> but none as \<open>prev\<close>: the \<open>continue\<close> returns to the loop test with
  the iterators unmoved, for ever. Neither \<open>shift\<close> nor \<open>optimize\<close> nor the constructor
  returns.
\<close>

theorem shift_never_returns:
  "shift [Diff DELETE ''a'', Diff INSERT ''c'', Diff EQUAL ''b''] = None
   \<and> optimize [Diff DELETE ''a'', Diff INSERT ''c'', Diff EQUAL ''b''] = None
   \<and> Patch4 limits ''ab'' ''cb'' checklines clock1 clock2 = None"
proof -
  have "Patch4 limits ''ab'' ''cb'' checklines clock1 clock2 = None"
    by (simp add: Patch4_def Patch5.simps compute_a_c optimize_DELETE_INSERT_EQUAL eval_defs)
  then show ?thesis
    by (simp add: shift_DELETE_INSERT_EQUAL optimize_DELETE_INSERT_EQUAL)
qed

lemma halfmatch_daar_hier:
  "halfmatch ds limits ''daar'' ''hier'' checklines deadline = Some (Done (False, ds))"
  by (simp add: halfmatch.simps half_defs eval_defs)

lemma compute_daar_hier:
  "compute ds limits ''daar'' ''hier'' checklines deadline = Some (Done ds)"
  by (simp add: compute.simps halfmatch_daar_hier eval_defs)

lemma optimize_hallo_r:
  "optimize [Diff EQUAL ''hallo '', Diff EQUAL ''r''] = Some UndefinedBehaviour"
  by (simp add: optimize.simps mergeUpdates_def)

text \<open>
  C6. The claim is that in the patch returned no two neighbours have the same
  operation. For \<open>hallo daar\<close> and \<open>hallo hier\<close> (the texts of \<open>test.cpp\<close>)
  \<open>compute\<close> adds nothing to the common prefix (no overlap, no half match, and
  \<open>bisect\<close> is empty), so the list handed to \<open>optimize\<close> is two \<open>EQUAL\<close>s; its
  first pass, \<open>mergeUpdates\<close>, erases an invalid range at the first of them. No patch
  without such neighbours is returned.
\<close>

theorem Patch4_hallo_adjacent_EQUAL:
  "Patch4 limits ''hallo daar'' ''hallo hier'' checklines clock1 clock2 = Some UndefinedBehaviour
   \<and> compute [Diff EQUAL ''hallo ''] limits ''daar'' ''hier'' checklines deadline
       = Some (Done [Diff EQUAL ''hallo ''])
   \<and> adjacent_same [Diff EQUAL ''hallo '', Diff EQUAL ''r'']
   \<and> optimize [Diff EQUAL ''hallo '', Diff EQUAL ''r''] = Some UndefinedBehaviour"
proof -
  have "Patch4 limits ''hallo daar'' ''hallo hier'' checklines clock1 clock2 = Some UndefinedBehaviour"
    by (simp add: Patch4_def Patch5.simps compute_daar_hier optimize_hallo_r eval_defs)
  then show ?thesis
    by (simp add: compute_daar_hier optimize_hallo_r)
qed

section \<open>Inputs that differ\<close>

text \<open>
  For two inputs that do not compare equal the constructor never returns a patch: it
  ends in undefined behaviour or does not end. So a statement about "the patch that is
  returned" says something for identical inputs only.
\<close>

lemma mergeUpdates_head_EQUAL:
  "mergeUpdates (Diff EQUAL b # rest) = UndefinedBehaviour"
  by (simp add: mergeUpdates_def)

lemma optimize_head_EQUAL:
  "optimize (Diff EQUAL b # rest) = Some UndefinedBehaviour"
  by (subst optimize.simps) (simp add: mergeUpdates_head_EQUAL)

lemma optimize_single:
  assumes "Diff_operation d \<noteq> EQUAL"
  shows "optimize [d] = Some UndefinedBehaviour"
proof -
  have "mergeUpdates [d] = Done [d]"
    using assms by (cases "Diff_operation d") (simp_all add: mergeUpdates_def)
  moreover have "mergeEquals [d] = [d]"
    using assms by (simp add: mergeEquals_def)
  ultimately show ?thesis
    by (subst optimize.simps) (simp add: shift_def)
qed

lemma optimize_DELETE_INSERT_EQUAL_any:
  "optimize [Diff DELETE a, Diff INSERT b, Diff EQUAL c] = None"
  by (subst optimize.simps)
     (simp add: mergeUpdates_def mergeEquals_def shift_def shift_loop_stuck)

lemma halfmatch_never_succeeds:
  assumes "halfmatch ds limits text1 text2 checklines deadline = Some (Done r)"
  shows "r = (False, ds)"
proof -
  define longtext where "longtext = (if Ascii_characters text1 > Ascii_characters text2 then text1 else text2)"
  define shorttext where "shorttext = (if Ascii_characters text1 > Ascii_characters text2 then text2 else text1)"
  show ?thesis
  proof (cases "Ascii_characters longtext < 4 \<or> Ascii_characters shorttext * 2 < Ascii_characters longtext")
    case True
    with assms show ?thesis
      by (simp add: halfmatch.simps longtext_def shorttext_def Let_def)
  next
    case False
    then have long: "longtext \<noteq> []"
      by (auto simp: Ascii_characters_def Buffer_bytes_def)
    show ?thesis
    proof (cases "HalfMatch_ctor False longtext shorttext")
      case None
      with False assms show ?thesis
        by (simp add: halfmatch.simps longtext_def shorttext_def Let_def)
    next
      case (Some y)
      show ?thesis
      proof (cases y)
        case UndefinedBehaviour
        with Some False assms show ?thesis
          by (simp add: halfmatch.simps longtext_def shorttext_def Let_def)
      next
        case (Done result)
        with Some long have "\<not> HalfMatch_valid result"
          using HalfMatch_ctor_valid by blast
        with Done Some False assms show ?thesis
          by (simp add: halfmatch.simps longtext_def shorttext_def Let_def)
      qed
    qed
  qed
qed

lemma overlap_cases:
  "(\<exists>r. overlap ds text1 text2 = (True, ds @ r)) \<or> overlap ds text1 text2 = (False, ds)"
  by (simp add: overlap_def Let_def)

lemma compute_no_overlap:
  assumes "Ascii_characters text1 \<noteq> 0" and "Ascii_characters text2 \<noteq> 0"
    and "overlap ds text1 text2 = (False, ds)"
    and "compute ds limits text1 text2 checklines deadline = Some (Done ds1)"
  shows "ds1 = ds"
proof (cases "Deadline_bool deadline")
  case False
  with assms show ?thesis
    by (simp add: compute.simps linemode_def bisect_def split: if_splits)
next
  case True
  show ?thesis
  proof (cases "halfmatch ds limits text1 text2 checklines deadline")
    case None
    with True assms show ?thesis by (simp add: compute.simps)
  next
    case (Some y)
    show ?thesis
    proof (cases y)
      case UndefinedBehaviour
      with Some True assms show ?thesis by (simp add: compute.simps)
    next
      case (Done r)
      with Some have "r = (False, ds)" using halfmatch_never_succeeds by blast
      with Done Some True assms show ?thesis
        by (simp add: compute.simps linemode_def bisect_def split: if_splits)
    qed
  qed
qed

lemma compute_extends:
  assumes "compute ds limits text1 text2 checklines deadline = Some (Done ds1)"
  shows "\<exists>r. ds1 = ds @ r"
proof (cases "Ascii_characters text1 = 0 \<or> Ascii_characters text2 = 0")
  case True
  with assms show ?thesis by (auto simp: compute.simps split: if_splits)
next
  case False
  from overlap_cases[of ds text1 text2] show ?thesis
  proof
    assume "\<exists>r. overlap ds text1 text2 = (True, ds @ r)"
    then obtain r where "overlap ds text1 text2 = (True, ds @ r)" ..
    with False assms show ?thesis by (auto simp: compute.simps)
  next
    assume "overlap ds text1 text2 = (False, ds)"
    with False assms have "ds1 = ds" using compute_no_overlap by blast
    then show ?thesis by simp
  qed
qed


lemma memmem_short: "length h < length n \<Longrightarrow> memmem h n = None"
proof (induction h)
  case Nil
  then show ?case by auto
next
  case (Cons x xs)
  have "length (take (length n) (x # xs)) \<noteq> length n"
    using Cons.prems by simp
  then have "take (length n) (x # xs) \<noteq> n" by metis
  moreover have "memmem xs n = None" using Cons by simp
  ultimately show ?case by simp
qed

lemma memmem_same_length:
  assumes "length h = length n" and "h \<noteq> n"
  shows "memmem h n = None"
proof (cases h)
  case Nil
  with assms show ?thesis by simp
next
  case (Cons x xs)
  with assms have "length xs < length n" by simp
  then have "memmem xs n = None" by (rule memmem_short)
  moreover from assms have "take (length n) h \<noteq> n" by simp
  ultimately show ?thesis using Cons by simp
qed

lemma CommonSuffix_loop_bound:
  "sz \<le> maxsize \<Longrightarrow> CommonSuffix_loop sz maxsize iter1 iter2 \<le> maxsize"
proof (induction iter1 arbitrary: sz iter2)
  case Nil
  then show ?case by simp
next
  case (Cons c1 iter1)
  show ?case
  proof (cases iter2)
    case Nil
    with Cons.prems show ?thesis by simp
  next
    case (Cons c2 rest2)
    show ?thesis
    proof (cases "sz < maxsize \<and> c1 = c2")
      case True
      then have "sz + 1 \<le> maxsize" by simp
      from Cons.IH[OF this] True Cons show ?thesis by simp
    next
      case False
      with Cons Cons.prems show ?thesis by auto
    qed
  qed
qed

lemma CommonPrefix_loop_ge:
  "sz \<le> CommonPrefix_loop sz maxsize iter1 iter2"
proof (induction iter1 arbitrary: sz iter2)
  case Nil
  then show ?case by simp
next
  case (Cons c1 iter1)
  show ?case
  proof (cases iter2)
    case Nil
    then show ?thesis by simp
  next
    case (Cons c2 rest2)
    show ?thesis
    proof (cases "sz < maxsize \<and> c1 = c2")
      case True
      have "sz + 1 \<le> CommonPrefix_loop (sz + 1) maxsize iter1 rest2"
        by (rule Cons.IH)
      with True Cons show ?thesis by simp
    next
      case False
      with Cons show ?thesis by auto
    qed
  qed
qed

lemma CommonPrefix_loop_zero:
  assumes "CommonPrefix_loop 0 (min (length a) (length b)) a b = 0"
  shows "a = [] \<or> b = [] \<or> hd a \<noteq> hd b"
proof (cases a)
  case Nil
  then show ?thesis by simp
next
  case (Cons x xs)
  note a = this
  show ?thesis
  proof (cases b)
    case Nil
    then show ?thesis by simp
  next
    case (Cons y ys)
    have "x \<noteq> y"
    proof
      assume "x = y"
      with a Cons assms
      have "CommonPrefix_loop (Suc 0) (Suc (min (length xs) (length ys))) xs ys = 0"
        by simp
      moreover have "Suc 0 \<le> CommonPrefix_loop (Suc 0) (Suc (min (length xs) (length ys))) xs ys"
        by (rule CommonPrefix_loop_ge)
      ultimately show False by simp
    qed
    with a Cons show ?thesis by simp
  qed
qed

text \<open>
  With no common prefix the constructor hands \<open>optimize\<close> a single insertion of the
  empty text, or a deletion, an insertion and the common suffix of one character, or a
  longer common suffix alone; with a common prefix the list starts with an \<open>EQUAL\<close>.
  None of them comes back.
\<close>

lemma Patch5_different_never_returns:
  assumes differ: "\<not> Ascii_eq input1 input2"
  shows "Patch5 limits input1 input2 checklines deadline \<noteq> Some (Done ds)"
proof
  assume ret: "Patch5 limits input1 input2 checklines deadline = Some (Done ds)"
  define p where "p = CommonPrefix_characters (CommonPrefix_ctor input1 input2)"
  define suffix where "suffix = CommonSuffix_ctor (Ascii_substr input1 p) (Ascii_substr input2 p)"
  define s where "s = CommonSuffix_characters suffix"
  define ds0 where "ds0 = (if p > 0 then [Diff EQUAL (CommonPrefix_buffer (CommonPrefix_ctor input1 input2))] else [])"
  define text1 where "text1 = Ascii_substr2 input1 p (p + s)"
  define text2 where "text2 = Ascii_substr2 input2 p (p + s)"
  define tail where "tail = (if s > 0 then [Diff EQUAL (CommonSuffix_buffer suffix)] else [])"
  from ret differ obtain ds1 where
    comp: "compute ds0 limits text1 text2 checklines deadline = Some (Done ds1)"
    and opt: "optimize (ds1 @ tail) = Some (Done ds)"
    by (auto simp: Patch5.simps Let_def p_def suffix_def s_def ds0_def text1_def text2_def tail_def
        split: option.splits outcome.splits if_splits)
  from comp obtain r where ds1: "ds1 = ds0 @ r" using compute_extends by blast
  show False
  proof (cases "p > 0")
    case True
    with ds1 opt show False
      by (simp add: ds0_def optimize_head_EQUAL)
  next
    case False
    then have p0: "p = 0" by simp
    then have ds0: "ds0 = []" by (simp add: ds0_def)
    have sub1: "Ascii_substr input1 0 = input1" and sub2: "Ascii_substr input2 0 = input2"
      by (simp_all add: Ascii_substr_def Buffer_part_eq Buffer_returned_def)
    have "CommonSuffix_loop 0 (min (length input1) (length input2))
            (Ascii_rbegin input1) (Ascii_rbegin input2) \<le> min (length input1) (length input2)"
      by (rule CommonSuffix_loop_bound) simp
    then have s_le: "s \<le> min (length input1) (length input2)"
      unfolding s_def suffix_def p0 sub1 sub2
      by (simp add: CommonSuffix_characters_def CommonSuffix_ctor_def Ascii_characters_def
          Buffer_bytes_def)
    have t1: "text1 = take s input1" and t2: "text2 = take s input2"
      using s_le
      by (auto simp: text1_def text2_def p0 Ascii_substr2_def Buffer_part2_eq Buffer_returned_def
          min_def)
    show False
    proof (cases "s = 0")
      case True
      then have "text1 = []" "text2 = []" "tail = []" by (simp_all add: t1 t2 tail_def)
      with comp ds0 have "ds1 = [Diff INSERT []]"
        by (simp add: compute.simps Ascii_characters_def Buffer_bytes_def Ascii_buffer_def)
      with opt \<open>tail = []\<close> show False
        by (simp add: optimize_single)
    next
      case False
      with s_le have ne: "input1 \<noteq> []" "input2 \<noteq> []" by auto
      have "CommonPrefix_loop 0 (min (length input1) (length input2)) input1 input2 = 0"
        using p0
        by (simp add: p_def CommonPrefix_characters_def CommonPrefix_ctor_def Ascii_characters_def
            Buffer_bytes_def Ascii_begin_def)
      from CommonPrefix_loop_zero[OF this] ne have hd: "hd input1 \<noteq> hd input2" by simp
      from False s_le have len: "length text1 = s" "length text2 = s" by (simp_all add: t1 t2)
      from False ne have hd1: "hd text1 = hd input1" and hd2: "hd text2 = hd input2"
        by (simp_all add: t1 t2)
      from hd hd1 hd2 have neq: "text2 \<noteq> text1" by auto
      from len False have chars: "Ascii_characters text1 \<noteq> 0" "Ascii_characters text2 \<noteq> 0"
        by (simp_all add: Ascii_characters_def Buffer_bytes_def)
      have skip: "Ascii_find text2 text1 = - 1"
        using memmem_same_length[of text2 text1] len neq
        by (simp add: Ascii_find_def Buffer_find_def)
      have tail: "tail = [Diff EQUAL (CommonSuffix_buffer suffix)]"
        using False by (simp add: tail_def)
      show False
      proof (cases "s = 1")
        case True
        with len skip have "overlap [] text1 text2
            = (True, [Diff DELETE text1, Diff INSERT text2])"
          by (simp add: overlap_def CommonOverlap_ctor_def CommonOverlap_bool_def Let_def
              Ascii_characters_def Buffer_bytes_def Ascii_buffer_def)
        with comp ds0 chars have "ds1 = [Diff DELETE text1, Diff INSERT text2]"
          by (simp add: compute.simps)
        with opt tail show False
          by (simp add: optimize_DELETE_INSERT_EQUAL_any)
      next
        case False
        with len skip \<open>s \<noteq> 0\<close> have "overlap [] text1 text2 = (False, [])"
          by (simp add: overlap_def CommonOverlap_ctor_def CommonOverlap_bool_def Let_def
              Ascii_characters_def Buffer_bytes_def)
        with comp ds0 chars have "ds1 = []"
          using compute_no_overlap[of text1 text2 "[]" limits checklines deadline ds1] by simp
        with opt tail show False
          by (simp add: optimize_head_EQUAL)
      qed
    qed
  qed
qed

section \<open>The deadline\<close>

text \<open>
  C7. The claim is that the half match is tried only when a deadline exists (and the
  sizes allow it), and that a \<open>timeout\<close> of zero means that none exists.
  \<open>compute\<close> calls \<open>halfmatch\<close> exactly when the \<open>Deadline\<close> converts to
  \<open>true\<close>, and \<open>halfmatch\<close> tests the sizes. But for a \<open>timeout\<close> of zero
  \<open>Limits::deadline\<close> returns the largest \<open>clock_t\<close>, which the constructor
  \<open>Deadline(time_t seconds)\<close> stores as \<open>_max\<close>: the deadline converts to \<open>true\<close>
  and the half match is tried.
\<close>

theorem deadline_set_for_timeout_zero:
  "Limits_deadline (limits\<lparr>Limits_timeout := 0\<rparr>) clock1 = clock_t_max
   \<and> Deadline_bool (Deadline_ctor clock2 (Limits_deadline (limits\<lparr>Limits_timeout := 0\<rparr>) clock1))
   \<and> \<not> Deadline_not (Deadline_ctor clock2 (Limits_deadline (limits\<lparr>Limits_timeout := 0\<rparr>) clock1))"
  by (simp add: Limits_deadline_def Deadline_ctor_def Deadline_bool_def Deadline_not_def clock_t_max_def)

section \<open>The choice between the two quarters\<close>




section \<open>Slicing a buffer\<close>

text \<open>
  C9. \<open>Buffer::part\<close> is total and in bounds. \<open>part(start)\<close> returns the empty buffer
  when \<open>start\<close> is at or past the size, and the bytes from \<open>start\<close> to the end
  otherwise; \<open>part(start, size)\<close> returns the empty buffer when \<open>start\<close> is at or past
  the size or \<open>size\<close> is zero, and otherwise exactly \<open>min (bytes - start) size\<close> bytes
  starting at \<open>start\<close>. The range that either of them hands to the \<open>Buffer\<close>
  constructor never leaves the storage: there is no undefined outcome.
\<close>

theorem Buffer_part_in_bounds:
  "Buffer_part b start = Done (if start \<ge> Buffer_bytes b then [] else drop start b)
   \<and> Buffer_part2 b start sz =
       Done (if start \<ge> Buffer_bytes b \<or> sz = 0 then []
             else take (min (Buffer_bytes b - start) sz) (drop start b))
   \<and> Buffer_bytes (if start \<ge> Buffer_bytes b then [] else drop start b)
       = Buffer_bytes b - start
   \<and> Buffer_bytes (if start \<ge> Buffer_bytes b \<or> sz = 0 then []
                     else take (min (Buffer_bytes b - start) sz) (drop start b))
       = (if start \<ge> Buffer_bytes b \<or> sz = 0 then 0 else min (Buffer_bytes b - start) sz)
   \<and> Buffer_part b start \<noteq> UndefinedBehaviour
   \<and> Buffer_part2 b start sz \<noteq> UndefinedBehaviour"
  by (auto simp add: Buffer_part_def Buffer_part2_def Buffer_at_def Buffer_bytes_def min_def)

theorem Buffer_part_in_bounds_witness:
  "Buffer_part ''hallo daar'' 6 = Done ''daar''
   \<and> Buffer_part ''hallo daar'' 10 = Done []
   \<and> Buffer_part2 ''hallo daar'' 6 7 = Done ''daar''
   \<and> Buffer_part2 ''hallo daar'' 2 3 = Done ''llo''
   \<and> Buffer_part2 ''hallo daar'' 2 0 = Done []"
  using Buffer_part_in_bounds [of "''hallo daar''" 6 7]
    Buffer_part_in_bounds [of "''hallo daar''" 10 1]
    Buffer_part_in_bounds [of "''hallo daar''" 2 3]
    Buffer_part_in_bounds [of "''hallo daar''" 2 0]
  by (simp add: Buffer_bytes_def)

end
